theory Spec2Isabelle
  imports Complex_Main "HOL-Library.Word" "HOL-Library.Sublist"
begin

section \<open>The chat widget of the portfolio: data\<close>

text \<open>
  The development follows \<^verbatim>\<open>src/components/chatWidget/ChatWidget.js\<close> and
  \<^verbatim>\<open>src/chatConfig.js\<close>. A JavaScript string is a sequence of UTF-16 code units;
  \<open>str\<close> writes an ASCII literal of the source as such a sequence.
\<close>

type_synonym code_unit = "16 word"
type_synonym js_string = "code_unit list"

definition str :: "string \<Rightarrow> js_string" where
  "str s = map of_char s"

text \<open>The three values the \<^verbatim>\<open>role\<close> property takes in the source, and one message object.\<close>

datatype role = System | User | Assistant

record turn =
  role :: role
  content :: js_string

subsection \<open>chatConfig.js\<close>

definition CHAT_WORKER_URL :: js_string where
  "CHAT_WORKER_URL = str ''https://test/chat''"

definition CHAT_SYSTEM_PROMPT :: js_string where
  "CHAT_SYSTEM_PROMPT = str (''You are an assistant for the portfolio of Saad Pasta. ''
     @ ''Be concise, helpful, and focused on his projects, experience, and skills.'')"

subsection \<open>The literals of ChatWidget.js\<close>

text \<open>The greeting of \<^verbatim>\<open>handleToggle\<close>; its apostrophe is U+2019.\<close>

definition WELCOME_TEXT :: js_string where
  "WELCOME_TEXT = str ''Hi! I can help you understand Saad Pasta'' @ [0x2019]
     @ str ''s projects, skills and experience.''"

text \<open>The replacement for a missing reply, in the \<^verbatim>\<open>try\<close> block of \<^verbatim>\<open>handleSubmit\<close>.\<close>

definition FALLBACK_TEXT :: js_string where
  "FALLBACK_TEXT = str ''I am '' @ str ''having trouble responding''
     @ str '' right now. Please try again in a moment.''"

text \<open>The text of the \<^verbatim>\<open>catch\<close> block of \<^verbatim>\<open>handleSubmit\<close>.\<close>

definition CONNECTION_ERROR_TEXT :: js_string where
  "CONNECTION_ERROR_TEXT = str ''Connection error. Please check your network and try again.''"

subsection \<open>What the platform hands to the handler\<close>

text \<open>
  A value produced by \<^verbatim>\<open>response.json()\<close>. An object is the list of its own properties.
\<close>

datatype json =
    JNull
  | JBool bool
  | JNum real
  | JStr js_string
  | JArr "json list"
  | JObj "(js_string \<times> json) list"

text \<open>
  What reading the body of a response gives: the stream fails; or it yields a text that
  \<^verbatim>\<open>JSON.parse\<close> rejects; or a text that it accepts, with the parsed value.
\<close>

datatype body = Unreadable | Malformed js_string | Parsed js_string json

record response =
  status :: nat
  body :: body

text \<open>\<^verbatim>\<open>response.ok\<close> of the Fetch API: the status is in the range 200 to 299.\<close>

definition ok :: "response \<Rightarrow> bool" where
  "ok r = (200 \<le> status r \<and> status r \<le> 299)"

text \<open>How the promise of \<^verbatim>\<open>fetch\<close> settles: it rejects, or it resolves to a response.\<close>

datatype outcome = Rejected | Responded response

text \<open>What the \<^verbatim>\<open>try\<close> block can throw, and what the handler writes to the console.\<close>

datatype error = NetworkFailure | BodyReadFailure | JsonSyntaxError | HttpError nat

datatype log_entry =
    HttpErrorLog nat js_string
  | ResponseJsonLog json
  | FetchFailedLog error

record request =
  url :: js_string
  payload :: "turn list"

subsection \<open>The component\<close>

text \<open>
  The four \<^verbatim>\<open>useState\<close> cells of the component, then what lies outside them: the
  calls of \<^verbatim>\<open>handleSubmit\<close> suspended at \<^verbatim>\<open>await fetch\<close> (each holds the
  \<^verbatim>\<open>updatedHistory\<close> of its closure), the POST requests issued so far, and the console.
\<close>

record widget =
  isOpen :: bool
  isSending :: bool
  input :: js_string
  messages :: "turn list"
  inflight :: "turn list list"
  requests :: "request list"
  console :: "log_entry list"

definition init :: widget where
  "init = \<lparr> isOpen = False, isSending = False, input = [],
     messages = [\<lparr> role = System, content = CHAT_SYSTEM_PROMPT \<rparr>],
     inflight = [], requests = [], console = [] \<rparr>"

section \<open>The operations\<close>

text \<open>\<^verbatim>\<open>messages.filter((m) => m.role !== "system")\<close>, computed at every render.\<close>

definition visibleMessages :: "widget \<Rightarrow> turn list" where
  "visibleMessages s = filter (\<lambda>m. role m \<noteq> System) (messages s)"

text \<open>
  \<^verbatim>\<open>handleToggle\<close>: \<^verbatim>\<open>isOpen\<close> and \<^verbatim>\<open>visibleMessages\<close> are those of the render that
  created the handler; both updates are functional.
\<close>

definition handleToggle :: "widget \<Rightarrow> widget" where
  "handleToggle s =
     (let s' = s\<lparr> isOpen := \<not> isOpen s \<rparr>
      in if \<not> isOpen s \<and> length (visibleMessages s) = 0
         then s'\<lparr> messages := messages s' @ [\<lparr> role = Assistant, content = WELCOME_TEXT \<rparr>] \<rparr>
         else s')"

text \<open>
  \<^verbatim>\<open>String.prototype.trim\<close> removes the code units of WhiteSpace and LineTerminator
  from both ends.
\<close>

definition is_whitespace :: "code_unit \<Rightarrow> bool" where
  "is_whitespace c =
     (c \<in> {0x0009, 0x000A, 0x000B, 0x000C, 0x000D, 0x0020, 0x00A0, 0x1680,
            0x2028, 0x2029, 0x202F, 0x205F, 0x3000, 0xFEFF}
      \<or> (0x2000 \<le> c \<and> c \<le> 0x200A))"

definition trim :: "js_string \<Rightarrow> js_string" where
  "trim s = rev (dropWhile is_whitespace (rev (dropWhile is_whitespace s)))"

text \<open>\<^verbatim>\<open>xs.slice(-n)\<close>: from index \<open>max (length xs - n) 0\<close> to the end.\<close>

definition slice_last :: "nat \<Rightarrow> 'a list \<Rightarrow> 'a list" where
  "slice_last n xs =
     (let k = max (int (length xs) - int n) 0 in drop (nat k) xs)"

text \<open>
  \<^verbatim>\<open>handleSubmit\<close> up to its first \<^verbatim>\<open>await\<close>: the guard, the three state updates, and
  the call of \<^verbatim>\<open>fetch\<close>, after which the call is suspended. An empty string is falsy,
  so \<^verbatim>\<open>!trimmed\<close> is the test for the empty string. \<^verbatim>\<open>event.preventDefault()\<close> acts on
  the DOM event, not on the component, and has no counterpart here.
\<close>

definition handleSubmit :: "widget \<Rightarrow> widget" where
  "handleSubmit s =
     (let trimmed = trim (input s)
      in if trimmed = [] \<or> isSending s then s
         else
           let userMessage = \<lparr> role = User, content = trimmed \<rparr>;
               updatedHistory = messages s @ [userMessage];
               compactHistory = slice_last 25 updatedHistory
           in s\<lparr> input := [],
                 messages := updatedHistory,
                 isSending := True,
                 requests := requests s @ [\<lparr> url = CHAT_WORKER_URL, payload = compactHistory \<rparr>],
                 inflight := inflight s @ [updatedHistory] \<rparr>)"

text \<open>Truthiness of a parsed value, and the lookup of a property (\<open>None\<close> is undefined).\<close>

fun truthy :: "json \<Rightarrow> bool" where
  "truthy JNull = False"
| "truthy (JBool b) = b"
| "truthy (JNum x) = (x \<noteq> 0)"
| "truthy (JStr t) = (t \<noteq> [])"
| "truthy (JArr _) = True"
| "truthy (JObj _) = True"

fun get_prop :: "json \<Rightarrow> js_string \<Rightarrow> json option" where
  "get_prop (JObj kvs) k = map_of kvs k"
| "get_prop _ k = None"

text \<open>
  \<^verbatim>\<open>data && typeof data.reply === "string" && data.reply.length > 0 ? data.reply : "..."\<close>
\<close>

definition replyText :: "json \<Rightarrow> js_string" where
  "replyText data =
     (if truthy data
      then (case get_prop data (str ''reply'') of
              Some (JStr t) \<Rightarrow> if length t > 0 then t else FALLBACK_TEXT
            | _ \<Rightarrow> FALLBACK_TEXT)
      else FALLBACK_TEXT)"

text \<open>\<^verbatim>\<open>response.text()\<close> and \<^verbatim>\<open>response.json()\<close>; \<open>Inl\<close> is a rejection.\<close>

fun response_text :: "body \<Rightarrow> error + js_string" where
  "response_text Unreadable = Inl BodyReadFailure"
| "response_text (Malformed t) = Inr t"
| "response_text (Parsed t _) = Inr t"

fun response_json :: "body \<Rightarrow> error + json" where
  "response_json Unreadable = Inl BodyReadFailure"
| "response_json (Malformed _) = Inl JsonSyntaxError"
| "response_json (Parsed _ j) = Inr j"

text \<open>
  The \<^verbatim>\<open>try\<close> block after \<^verbatim>\<open>fetch\<close> has settled: the lines written to the console, and
  either the error thrown or \<^verbatim>\<open>replyText\<close>.
\<close>

fun try_block :: "outcome \<Rightarrow> log_entry list \<times> (error + js_string)" where
  "try_block Rejected = ([], Inl NetworkFailure)"
| "try_block (Responded r) =
     (if \<not> ok r
      then (case response_text (body r) of
              Inl e \<Rightarrow> ([], Inl e)
            | Inr errorText \<Rightarrow> ([HttpErrorLog (status r) errorText], Inl (HttpError (status r))))
      else (case response_json (body r) of
              Inl e \<Rightarrow> ([], Inl e)
            | Inr data \<Rightarrow> ([ResponseJsonLog data], Inr (replyText data))))"

text \<open>
  The rest of \<^verbatim>\<open>handleSubmit\<close> for the \<open>i\<close>-th suspended call: the \<^verbatim>\<open>try\<close> block, the
  \<^verbatim>\<open>catch\<close> block when it throws, and \<^verbatim>\<open>finally\<close>. Both \<^verbatim>\<open>setMessages\<close> calls store a
  list built from the \<^verbatim>\<open>updatedHistory\<close> of the closure. Nothing happens when no
  such call is suspended. The later \<^verbatim>\<open>await\<close>s of the block are not separate steps: the
  block reads nothing of the component but the \<^verbatim>\<open>updatedHistory\<close> of its closure, and it
  writes the component state only at its end.
\<close>

definition settle :: "nat \<Rightarrow> outcome \<Rightarrow> widget \<Rightarrow> widget" where
  "settle i out s =
     (if i < length (inflight s)
      then
        let updatedHistory = inflight s ! i;
            s0 = s\<lparr> inflight := take i (inflight s) @ drop (Suc i) (inflight s) \<rparr>;
            s1 = (case try_block out of
                    (logs, Inr reply) \<Rightarrow>
                      s0\<lparr> console := console s0 @ logs,
                          messages := updatedHistory @ [\<lparr> role = Assistant, content = reply \<rparr>] \<rparr>
                  | (logs, Inl e) \<Rightarrow>
                      s0\<lparr> console := console s0 @ logs @ [FetchFailedLog e],
                          messages := updatedHistory
                            @ [\<lparr> role = Assistant, content = CONNECTION_ERROR_TEXT \<rparr>] \<rparr>)
        in s1\<lparr> isSending := False \<rparr>
      else s)"

subsection \<open>Events\<close>

text \<open>
  What can happen to the mounted component: a click on the button, a change of the
  textarea, a submission of the form, and the settlement of a suspended request.
\<close>

datatype event = Toggle | Change js_string | Submit | Settle nat outcome

fun step :: "widget \<Rightarrow> event \<Rightarrow> widget" where
  "step s Toggle = handleToggle s"
| "step s (Change v) = s\<lparr> input := v \<rparr>"
| "step s Submit = handleSubmit s"
| "step s (Settle i out) = settle i out s"

definition run :: "event list \<Rightarrow> widget" where
  "run evs = foldl step init evs"

section \<open>Definitions for the properties\<close>

text \<open>
  The visible list in the words of the specification: the full sequence with every entry
  of role system removed, the others kept in their order.
\<close>

primrec without_system :: "turn list \<Rightarrow> turn list" where
  "without_system [] = []"
| "without_system (m # ms) =
     (if role m = System then without_system ms else m # without_system ms)"

text \<open>
  A parsed body in the words of the specification: it contains a non-empty string field
  \<^verbatim>\<open>reply\<close>.
\<close>

definition has_reply :: "json \<Rightarrow> bool" where
  "has_reply data =
     (case data of
        JObj kvs \<Rightarrow>
          (case map_of kvs (str ''reply'') of Some (JStr t) \<Rightarrow> t \<noteq> [] | _ \<Rightarrow> False)
      | _ \<Rightarrow> False)"

text \<open>
  The invariant of the component: the history starts with the system turn; while a request
  is being sent exactly one call is suspended, its \<^verbatim>\<open>updatedHistory\<close> is the current
  history and something is visible; otherwise no call is suspended.
\<close>

definition consistent :: "widget \<Rightarrow> bool" where
  "consistent s =
     ((\<exists>rest. messages s = \<lparr> role = System, content = CHAT_SYSTEM_PROMPT \<rparr> # rest)
      \<and> (if isSending s then inflight s = [messages s] \<and> visibleMessages s \<noteq> []
         else inflight s = []))"

text \<open>
  A state whose history holds 29 turns, with a text waiting in the input buffer: the
  submission makes it the history of 30 turns of property P5.
\<close>

definition history29 :: widget where
  "history29 = init\<lparr> isOpen := True, input := str ''Hello'',
     messages := messages init
       @ map (\<lambda>k. \<lparr> role = (if even k then User else Assistant), content = [of_nat k] \<rparr>)
           [0..<28] \<rparr>"

section \<open>Basic facts\<close>

lemmas handler_defs = handleToggle_def handleSubmit_def settle_def visibleMessages_def
  trim_def is_whitespace_def slice_last_def ok_def Let_def

lemmas run_defs = run_def init_def handler_defs str_def

lemma filter_without_system: "filter (\<lambda>m. role m \<noteq> System) ms = without_system ms"
  by (induction ms) simp_all

lemma run_snoc: "run (evs @ [e]) = step (run evs) e"
  by (simp add: run_def)

lemma settle_messages:
  "i < length (inflight s) \<Longrightarrow>
   messages (settle i out s) = inflight s ! i @
     [\<lparr> role = Assistant,
        content = (case snd (try_block out) of Inl e \<Rightarrow> CONNECTION_ERROR_TEXT | Inr t \<Rightarrow> t) \<rparr>]"
  by (simp add: settle_def Let_def split: prod.splits sum.splits)

lemma settle_isSending: "i < length (inflight s) \<Longrightarrow> \<not> isSending (settle i out s)"
  by (simp add: settle_def Let_def split: prod.splits sum.splits)

lemma settle_inflight:
  "inflight (settle i out s) =
     (if i < length (inflight s) then take i (inflight s) @ drop (Suc i) (inflight s)
      else inflight s)"
  by (simp add: settle_def Let_def split: prod.splits sum.splits)

lemma settle_input: "input (settle i out s) = input s"
  by (simp add: settle_def Let_def split: prod.splits sum.splits)

lemma settle_idle: "\<not> i < length (inflight s) \<Longrightarrow> settle i out s = s"
  by (simp add: settle_def)

lemma handleSubmit_accepted:
  assumes "trim (input s) \<noteq> []" and "\<not> isSending s"
  shows "handleSubmit s =
    s\<lparr> input := [],
       messages := messages s @ [\<lparr> role = User, content = trim (input s) \<rparr>],
       isSending := True,
       requests := requests s @ [\<lparr> url = CHAT_WORKER_URL,
         payload = slice_last 25 (messages s @ [\<lparr> role = User, content = trim (input s) \<rparr>]) \<rparr>],
       inflight := inflight s @ [messages s @ [\<lparr> role = User, content = trim (input s) \<rparr>]] \<rparr>"
  using assms by (simp add: handleSubmit_def Let_def)

lemma slice_last_drop: "slice_last n xs = drop (length xs - n) xs"
  by (simp add: slice_last_def Let_def nat_diff_distrib' max_def)

lemma trim_nonempty: "trim t \<noteq> [] \<Longrightarrow> t \<noteq> []"
  by (auto simp: trim_def)

lemma texts_distinct: "FALLBACK_TEXT \<noteq> CONNECTION_ERROR_TEXT"
  by (simp add: FALLBACK_TEXT_def CONNECTION_ERROR_TEXT_def str_def)

lemma fallback_wording:
  "\<exists>pre post. FALLBACK_TEXT = pre @ str ''having trouble responding'' @ post"
  unfolding FALLBACK_TEXT_def by blast

text \<open>The test of the source on the parsed body against the words of the specification.\<close>

lemma replyText_fallback: "\<not> has_reply data \<Longrightarrow> replyText data = FALLBACK_TEXT"
  by (cases data) (auto simp: has_reply_def replyText_def split: option.splits json.splits)

lemma replyText_reply:
  "has_reply data \<Longrightarrow> get_prop data (str ''reply'') = Some (JStr (replyText data))"
  by (cases data) (auto simp: has_reply_def replyText_def split: option.splits json.splits)

text \<open>Scenario: the widget is opened, ``Hello'' is typed and submitted; the request is pending.\<close>

lemma awaiting_hello:
  "run [Toggle, Change (str ''Hello''), Submit] =
     \<lparr> isOpen = True, isSending = True, input = [],
       messages = [\<lparr> role = System, content = CHAT_SYSTEM_PROMPT \<rparr>,
                   \<lparr> role = Assistant, content = WELCOME_TEXT \<rparr>,
                   \<lparr> role = User, content = str ''Hello'' \<rparr>],
       inflight = [[\<lparr> role = System, content = CHAT_SYSTEM_PROMPT \<rparr>,
                    \<lparr> role = Assistant, content = WELCOME_TEXT \<rparr>,
                    \<lparr> role = User, content = str ''Hello'' \<rparr>]],
       requests = [\<lparr> url = CHAT_WORKER_URL,
                     payload = [\<lparr> role = System, content = CHAT_SYSTEM_PROMPT \<rparr>,
                                \<lparr> role = Assistant, content = WELCOME_TEXT \<rparr>,
                                \<lparr> role = User, content = str ''Hello'' \<rparr>] \<rparr>],
       console = [] \<rparr>"
  by (simp add: run_defs)

lemma history29_accepts:
  "trim (input history29) \<noteq> []" "\<not> isSending history29" "length (messages history29) = 29"
  by (simp_all add: history29_def init_def trim_def str_def is_whitespace_def)

subsection \<open>The invariant holds after every sequence of events\<close>

lemma consistent_init: "consistent init"
  by (simp add: consistent_def init_def)

lemma consistent_handleToggle: "consistent s \<Longrightarrow> consistent (handleToggle s)"
  by (auto simp: consistent_def handleToggle_def visibleMessages_def Let_def)

lemma consistent_change: "consistent s \<Longrightarrow> consistent (s\<lparr> input := v \<rparr>)"
  by (auto simp: consistent_def visibleMessages_def)

lemma consistent_handleSubmit: "consistent s \<Longrightarrow> consistent (handleSubmit s)"
  by (auto simp: consistent_def handleSubmit_def visibleMessages_def Let_def)

lemma consistent_busy:
  assumes "consistent s" and "i < length (inflight s)"
  shows "isSending s" and "inflight s = [messages s]" and "i = 0"
  using assms by (auto simp: consistent_def split: if_splits)

lemma consistent_settle: "consistent s \<Longrightarrow> consistent (settle i out s)"
proof (cases "i < length (inflight s)")
  case False
  assume "consistent s"
  with False show ?thesis by (simp add: settle_idle)
next
  case True
  assume c: "consistent s"
  note one = consistent_busy(2) [OF c True] and i0 = consistent_busy(3) [OF c True]
  from c obtain rest
    where m: "messages s = \<lparr> role = System, content = CHAT_SYSTEM_PROMPT \<rparr> # rest"
    by (auto simp: consistent_def)
  have "messages (settle i out s) = messages s @
     [\<lparr> role = Assistant,
        content = (case snd (try_block out) of Inl e \<Rightarrow> CONNECTION_ERROR_TEXT | Inr t \<Rightarrow> t) \<rparr>]"
    using settle_messages [OF True, of out] one i0 by simp
  moreover have "\<not> isSending (settle i out s)"
    using True by (rule settle_isSending)
  moreover have "inflight (settle i out s) = []"
    using True one i0 by (simp add: settle_inflight)
  ultimately show ?thesis
    using m by (simp add: consistent_def)
qed

lemma consistent_step: "consistent s \<Longrightarrow> consistent (step s e)"
  by (cases e)
    (simp_all add: consistent_handleToggle consistent_change consistent_handleSubmit
      consistent_settle)

lemma consistent_run: "consistent (run evs)"
proof (induction evs rule: rev_induct)
  case Nil
  show ?case by (simp add: run_def consistent_init)
next
  case (snoc e evs)
  then show ?case by (simp add: run_snoc consistent_step)
qed

section \<open>The properties\<close>

text \<open>
  C8. In every state the list of visible messages is the full history with every turn of
  role system removed, the other turns in their order; it is a function of the history
  alone (the state has no cell for it), so it follows every change of the history.
\<close>

theorem visible_projection:
  "visibleMessages s = without_system (messages s)
   \<and> subseq (visibleMessages s) (messages s)
   \<and> visibleMessages (s\<lparr> messages := ms \<rparr>) = without_system ms"
  by (simp add: visibleMessages_def filter_without_system [symmetric])

text \<open>
  C9. A toggle appends the greeting, one assistant turn, exactly when the widget was
  closed and nothing was visible; a toggle with a visible message, and a toggle that
  closes the widget, leave the history as it was. The toggle always flips the open flag.
\<close>

theorem welcome_on_first_open:
  "messages (handleToggle s) =
     (if \<not> isOpen s \<and> visibleMessages s = []
      then messages s @ [\<lparr> role = Assistant, content = WELCOME_TEXT \<rparr>]
      else messages s)
   \<and> isOpen (handleToggle s) = (\<not> isOpen s)"
  by (simp add: handleToggle_def Let_def)

text \<open>
  C5. A submission whose trimmed text is empty, or that arrives while a request is being
  sent, changes nothing: the history, the requests issued, the input buffer and the busy
  flag are those of the state before.
\<close>

theorem submit_guard_noop:
  "trim (input s) = [] \<or> isSending s \<Longrightarrow> handleSubmit s = s"
  by (auto simp: handleSubmit_def Let_def)

theorem submit_guard_noop_witness:
  "(trim (input (run [Toggle, Change (str ''   '')])) = []
      \<or> isSending (run [Toggle, Change (str ''   '')]))
   \<and> handleSubmit (run [Toggle, Change (str ''   '')]) = run [Toggle, Change (str ''   '')]
   \<and> (trim (input (run [Toggle, Change (str ''Hello''), Submit, Change (str ''World'')])) = []
      \<or> isSending (run [Toggle, Change (str ''Hello''), Submit, Change (str ''World'')]))
   \<and> handleSubmit (run [Toggle, Change (str ''Hello''), Submit, Change (str ''World'')])
      = run [Toggle, Change (str ''Hello''), Submit, Change (str ''World'')]"
proof -
  have a: "trim (input (run [Toggle, Change (str ''   '')])) = []"
    by (simp add: run_defs)
  have b: "isSending (run [Toggle, Change (str ''Hello''), Submit, Change (str ''World'')])"
    by (simp add: run_defs)
  show ?thesis
    using a b submit_guard_noop [of "run [Toggle, Change (str ''   '')]"]
      submit_guard_noop [of "run [Toggle, Change (str ''Hello''), Submit, Change (str ''World'')]"]
    by simp
qed

text \<open>
  C4. A submission that passes the guard sets the busy flag, and the flag is cleared when
  the request settles, however it settles: the network call rejects, the response cannot
  be read, the body is not JSON, the status is not 2xx, or a reply arrives.
\<close>

theorem busy_flag_cleared:
  "trim (input s) \<noteq> [] \<Longrightarrow> \<not> isSending s \<Longrightarrow>
   isSending (handleSubmit s)
   \<and> \<not> isSending (settle (length (inflight s)) out (handleSubmit s))"
  by (simp add: handleSubmit_accepted settle_isSending)

theorem busy_flag_cleared_witness:
  "trim (input (run [Toggle, Change (str '' Hello '')])) \<noteq> []
   \<and> \<not> isSending (run [Toggle, Change (str '' Hello '')])
   \<and> isSending (handleSubmit (run [Toggle, Change (str '' Hello '')]))
   \<and> \<not> isSending (settle (length (inflight (run [Toggle, Change (str '' Hello '')]))) Rejected
         (handleSubmit (run [Toggle, Change (str '' Hello '')])))"
proof -
  have a: "trim (input (run [Toggle, Change (str '' Hello '')])) \<noteq> []"
    by (simp add: run_defs)
  have b: "\<not> isSending (run [Toggle, Change (str '' Hello '')])"
    by (simp add: run_defs)
  show ?thesis
    using a b busy_flag_cleared [OF a b, of Rejected] by simp
qed

text \<open>
  C10. A submission that passes the guard empties the input buffer at once, while its
  request is still pending, and the settlement of the request, whatever the outcome,
  leaves the buffer empty: the submitted text is not put back.
\<close>

theorem input_cleared_not_restored:
  "trim (input s) \<noteq> [] \<Longrightarrow> \<not> isSending s \<Longrightarrow>
   input (handleSubmit s) = []
   \<and> length (inflight (handleSubmit s)) = Suc (length (inflight s))
   \<and> input (settle i out (handleSubmit s)) = []
   \<and> input (settle i out (handleSubmit s)) \<noteq> input s"
  using trim_nonempty [of "input s"]
  by (simp add: handleSubmit_accepted settle_input)

theorem input_cleared_not_restored_witness:
  "trim (input (run [Toggle, Change (str ''Hello'')])) \<noteq> []
   \<and> \<not> isSending (run [Toggle, Change (str ''Hello'')])
   \<and> input (run [Toggle, Change (str ''Hello''), Submit]) = []
   \<and> input (run [Toggle, Change (str ''Hello''), Submit, Settle 0 Rejected]) = []
   \<and> input (run [Toggle, Change (str ''Hello''), Submit, Settle 0 Rejected])
       \<noteq> input (run [Toggle, Change (str ''Hello'')])"
proof -
  have a: "trim (input (run [Toggle, Change (str ''Hello'')])) \<noteq> []"
    by (simp add: run_defs)
  have b: "\<not> isSending (run [Toggle, Change (str ''Hello'')])"
    by (simp add: run_defs)
  have c: "run [Toggle, Change (str ''Hello''), Submit]
      = handleSubmit (run [Toggle, Change (str ''Hello'')])"
    using run_snoc [of "[Toggle, Change (str ''Hello'')]" Submit] by simp
  have d: "run [Toggle, Change (str ''Hello''), Submit, Settle 0 Rejected]
      = settle 0 Rejected (handleSubmit (run [Toggle, Change (str ''Hello'')]))"
    using run_snoc [of "[Toggle, Change (str ''Hello''), Submit]" "Settle 0 Rejected"] c
    by simp
  show ?thesis
    unfolding c d using a b input_cleared_not_restored [OF a b, of 0 Rejected] by blast
qed

text \<open>
  C7. After every sequence of toggles, input changes, submissions and settlements, the
  first element of the history is the system turn with the configured prompt, as at
  initialization.
\<close>

theorem system_turn_first:
  "(\<exists>rest. messages (run evs) = \<lparr> role = System, content = CHAT_SYSTEM_PROMPT \<rparr> # rest)
   \<and> messages (run []) = [\<lparr> role = System, content = CHAT_SYSTEM_PROMPT \<rparr>]"
  using consistent_run [of evs] by (simp add: consistent_def run_def init_def)

text \<open>
  C3. In every state reached by a sequence of events, every event that takes the
  component from busy to idle appends exactly one turn to the history, an assistant turn.
\<close>

theorem one_reply_per_request:
  "isSending (run evs) \<Longrightarrow> \<not> isSending (step (run evs) e) \<Longrightarrow>
   \<exists>c. messages (step (run evs) e) = messages (run evs) @ [\<lparr> role = Assistant, content = c \<rparr>]"
proof (cases e)
  case Toggle
  assume "isSending (run evs)" "\<not> isSending (step (run evs) e)"
  with Toggle show ?thesis by (simp add: handleToggle_def Let_def split: if_splits)
next
  case (Change v)
  assume "isSending (run evs)" "\<not> isSending (step (run evs) e)"
  with Change show ?thesis by simp
next
  case Submit
  assume "isSending (run evs)" "\<not> isSending (step (run evs) e)"
  with Submit show ?thesis by (simp add: handleSubmit_def Let_def)
next
  case (Settle i out)
  assume busy: "isSending (run evs)" and idle: "\<not> isSending (step (run evs) e)"
  have i: "i < length (inflight (run evs))"
  proof (rule ccontr)
    assume "\<not> i < length (inflight (run evs))"
    then have "settle i out (run evs) = run evs" by (rule settle_idle)
    with busy idle Settle show False by simp
  qed
  note one = consistent_busy(2) [OF consistent_run i]
    and i0 = consistent_busy(3) [OF consistent_run i]
  show ?thesis
    using settle_messages [OF i, of out] one i0 Settle by simp
qed

theorem one_reply_per_request_witness:
  "isSending (run [Toggle, Change (str ''Hello''), Submit])
   \<and> \<not> isSending (step (run [Toggle, Change (str ''Hello''), Submit])
         (Settle 0 (Responded \<lparr> status = 200,
            body = Parsed (str ''{\"reply\":\"Hi there\"}'')
              (JObj [(str ''reply'', JStr (str ''Hi there''))]) \<rparr>)))
   \<and> (\<exists>c. messages (step (run [Toggle, Change (str ''Hello''), Submit])
         (Settle 0 (Responded \<lparr> status = 200,
            body = Parsed (str ''{\"reply\":\"Hi there\"}'')
              (JObj [(str ''reply'', JStr (str ''Hi there''))]) \<rparr>)))
       = messages (run [Toggle, Change (str ''Hello''), Submit])
         @ [\<lparr> role = Assistant, content = c \<rparr>])"
proof -
  have a: "isSending (run [Toggle, Change (str ''Hello''), Submit])"
    by (simp add: awaiting_hello)
  have b: "\<not> isSending (step (run [Toggle, Change (str ''Hello''), Submit])
         (Settle 0 (Responded \<lparr> status = 200,
            body = Parsed (str ''{\"reply\":\"Hi there\"}'')
              (JObj [(str ''reply'', JStr (str ''Hi there''))]) \<rparr>)))"
    by (simp add: awaiting_hello settle_isSending)
  show ?thesis
    using a b one_reply_per_request [OF a b] by blast
qed

text \<open>
  C6. For a submission that passes the guard, let \<open>h\<close> be the history with the user turn
  appended, of \<open>n\<close> turns. The body of the POST request holds exactly the last
  \<open>min n 25\<close> turns of \<open>h\<close>, in their order; the stored history is \<open>h\<close>, all \<open>n\<close>
  turns, and they are still its first \<open>n\<close> turns after the request has settled. With
  \<open>n = 30\<close> the payload is the last 25.
\<close>

theorem payload_window:
  "trim (input s) \<noteq> [] \<Longrightarrow> \<not> isSending s \<Longrightarrow>
   h = messages s @ [\<lparr> role = User, content = trim (input s) \<rparr>] \<Longrightarrow>
   p = payload (last (requests (handleSubmit s))) \<Longrightarrow>
   length (requests (handleSubmit s)) = Suc (length (requests s))
   \<and> url (last (requests (handleSubmit s))) = CHAT_WORKER_URL
   \<and> p = drop (length h - min (length h) 25) h
   \<and> length p = min (length h) 25
   \<and> (\<exists>older. h = older @ p)
   \<and> messages (handleSubmit s) = h
   \<and> take (length h) (messages (settle (length (inflight s)) out (handleSubmit s))) = h"
proof -
  assume a: "trim (input s) \<noteq> []" and b: "\<not> isSending s"
    and h: "h = messages s @ [\<lparr> role = User, content = trim (input s) \<rparr>]"
    and p: "p = payload (last (requests (handleSubmit s)))"
  note sub = handleSubmit_accepted [OF a b]
  have p': "p = drop (length h - 25) h"
    using p h by (simp add: sub slice_last_drop)
  have older: "\<exists>older. h = older @ p"
  proof
    show "h = take (length h - 25) h @ p" by (simp add: p')
  qed
  have i: "length (inflight s) < length (inflight (handleSubmit s))"
    by (simp add: sub)
  have nth: "inflight (handleSubmit s) ! length (inflight s) = h"
    by (simp add: sub h)
  have kept: "take (length h) (messages (settle (length (inflight s)) out (handleSubmit s))) = h"
    using settle_messages [OF i, of out] nth by simp
  have "length (requests (handleSubmit s)) = Suc (length (requests s))"
    and "url (last (requests (handleSubmit s))) = CHAT_WORKER_URL"
    and "messages (handleSubmit s) = h"
    by (simp_all add: sub h)
  moreover have "p = drop (length h - min (length h) 25) h"
    using p' by (simp add: min_def)
  moreover have "length p = min (length h) 25"
    using p' by (simp add: min_def)
  ultimately show ?thesis using older kept by blast
qed

theorem payload_window_witness:
  "trim (input history29) \<noteq> [] \<and> \<not> isSending history29
   \<and> length (messages history29 @ [\<lparr> role = User, content = trim (input history29) \<rparr>]) = 30
   \<and> payload (last (requests (handleSubmit history29)))
       = drop 5 (messages history29 @ [\<lparr> role = User, content = trim (input history29) \<rparr>])
   \<and> length (payload (last (requests (handleSubmit history29)))) = 25
   \<and> length (messages (handleSubmit history29)) = 30
   \<and> messages (handleSubmit history29)
       = messages history29 @ [\<lparr> role = User, content = trim (input history29) \<rparr>]"
  using history29_accepts
    payload_window [OF history29_accepts(1,2) refl refl, of Rejected]
  by simp

text \<open>
  C2. When the response has a 2xx status and its body parses as JSON but holds no
  non-empty string field \<^verbatim>\<open>reply\<close>, the appended assistant turn carries the fixed
  fallback message, which contains ``having trouble responding''; the \<^verbatim>\<open>try\<close> block
  ends normally (nothing is thrown, the console gets the parsed body and no failure
  line); and the fallback message differs from the connection-error message.
\<close>

theorem fallback_on_missing_reply:
  "i < length (inflight s) \<Longrightarrow> ok r \<Longrightarrow> body r = Parsed t data \<Longrightarrow> \<not> has_reply data \<Longrightarrow>
   messages (settle i (Responded r) s)
     = inflight s ! i @ [\<lparr> role = Assistant, content = FALLBACK_TEXT \<rparr>]
   \<and> try_block (Responded r) = ([ResponseJsonLog data], Inr FALLBACK_TEXT)
   \<and> console (settle i (Responded r) s) = console s @ [ResponseJsonLog data]
   \<and> \<not> isSending (settle i (Responded r) s)
   \<and> (\<exists>pre post. FALLBACK_TEXT = pre @ str ''having trouble responding'' @ post)
   \<and> FALLBACK_TEXT \<noteq> CONNECTION_ERROR_TEXT"
proof -
  assume i: "i < length (inflight s)" and r: "ok r" "body r = Parsed t data"
    and d: "\<not> has_reply data"
  have tb: "try_block (Responded r) = ([ResponseJsonLog data], Inr FALLBACK_TEXT)"
    using r by (simp add: replyText_fallback [OF d])
  have "messages (settle i (Responded r) s)
     = inflight s ! i @ [\<lparr> role = Assistant, content = FALLBACK_TEXT \<rparr>]"
    using settle_messages [OF i, of "Responded r"] by (simp only: tb snd_conv sum.case)
  moreover have "console (settle i (Responded r) s) = console s @ [ResponseJsonLog data]"
    using i by (simp add: settle_def Let_def tb del: try_block.simps)
  moreover note tb settle_isSending [OF i, of "Responded r"] fallback_wording texts_distinct
  ultimately show ?thesis by blast
qed

theorem fallback_on_missing_reply_witness:
  "0 < length (inflight (run [Toggle, Change (str ''Hello''), Submit]))
   \<and> ok \<lparr> status = 200,
          body = Parsed (str ''{\"reply\":\"\"}'') (JObj [(str ''reply'', JStr [])]) \<rparr>
   \<and> \<not> has_reply (JObj [(str ''reply'', JStr [])])
   \<and> messages (settle 0 (Responded \<lparr> status = 200,
          body = Parsed (str ''{\"reply\":\"\"}'') (JObj [(str ''reply'', JStr [])]) \<rparr>)
        (run [Toggle, Change (str ''Hello''), Submit]))
      = [\<lparr> role = System, content = CHAT_SYSTEM_PROMPT \<rparr>,
         \<lparr> role = Assistant, content = WELCOME_TEXT \<rparr>,
         \<lparr> role = User, content = str ''Hello'' \<rparr>,
         \<lparr> role = Assistant, content = FALLBACK_TEXT \<rparr>]"
proof -
  have a: "0 < length (inflight (run [Toggle, Change (str ''Hello''), Submit]))"
    by (simp add: awaiting_hello)
  have b: "ok \<lparr> status = 200,
      body = Parsed (str ''{\"reply\":\"\"}'') (JObj [(str ''reply'', JStr [])]) \<rparr>"
    by (simp add: ok_def)
  have c: "body \<lparr> status = 200,
      body = Parsed (str ''{\"reply\":\"\"}'') (JObj [(str ''reply'', JStr [])]) \<rparr>
    = Parsed (str ''{\"reply\":\"\"}'') (JObj [(str ''reply'', JStr [])])"
    by simp
  have d: "\<not> has_reply (JObj [(str ''reply'', JStr [])])"
    by (simp add: has_reply_def)
  have e: "inflight (run [Toggle, Change (str ''Hello''), Submit]) ! 0
      = [\<lparr> role = System, content = CHAT_SYSTEM_PROMPT \<rparr>,
         \<lparr> role = Assistant, content = WELCOME_TEXT \<rparr>,
         \<lparr> role = User, content = str ''Hello'' \<rparr>]"
    by (simp add: awaiting_hello)
  show ?thesis
    using a b d fallback_on_missing_reply [OF a b c d] unfolding e by simp
qed

text \<open>
  C1, as stated, fails: after a response of status 500, and after a response of status 200
  whose body is not JSON, the appended assistant turn does not carry the ``trouble
  responding'' text.
\<close>

theorem trouble_text_counterexample:
  "content (last (messages (run [Toggle, Change (str ''Hello''), Submit,
      Settle 0 (Responded \<lparr> status = 500, body = Malformed (str ''Internal Server Error'') \<rparr>)])))
     \<noteq> FALLBACK_TEXT
   \<and> content (last (messages (run [Toggle, Change (str ''Hello''), Submit,
      Settle 0 (Responded \<lparr> status = 200, body = Malformed (str ''<html>'') \<rparr>)])))
     \<noteq> FALLBACK_TEXT"
proof -
  have a: "run [Toggle, Change (str ''Hello''), Submit, Settle 0 out]
     = settle 0 out (run [Toggle, Change (str ''Hello''), Submit])" for out
    using run_snoc [of "[Toggle, Change (str ''Hello''), Submit]" "Settle 0 out"] by simp
  have "content (last (messages (run [Toggle, Change (str ''Hello''), Submit,
      Settle 0 (Responded \<lparr> status = 500, body = Malformed (str ''Internal Server Error'') \<rparr>)])))
     = CONNECTION_ERROR_TEXT"
    unfolding a by (simp add: awaiting_hello settle_def ok_def)
  moreover have "content (last (messages (run [Toggle, Change (str ''Hello''), Submit,
      Settle 0 (Responded \<lparr> status = 200, body = Malformed (str ''<html>'') \<rparr>)])))
     = CONNECTION_ERROR_TEXT"
    unfolding a by (simp add: awaiting_hello settle_def ok_def)
  ultimately show ?thesis using texts_distinct by simp
qed

text \<open>
  C1, amended. When the response has a status that is not 2xx, or a 2xx status and a body
  that cannot be parsed as JSON, the \<^verbatim>\<open>try\<close> block throws and the appended assistant
  turn carries the connection-error text of the \<^verbatim>\<open>catch\<close> block, which is not the
  ``trouble responding'' text.
\<close>

theorem failed_request_connection_error:
  "i < length (inflight s) \<Longrightarrow> \<not> ok r \<or> (\<forall>t data. body r \<noteq> Parsed t data) \<Longrightarrow>
   messages (settle i (Responded r) s)
     = inflight s ! i @ [\<lparr> role = Assistant, content = CONNECTION_ERROR_TEXT \<rparr>]
   \<and> CONNECTION_ERROR_TEXT \<noteq> FALLBACK_TEXT"
proof -
  assume i: "i < length (inflight s)"
    and r: "\<not> ok r \<or> (\<forall>t data. body r \<noteq> Parsed t data)"
  have "\<exists>e. snd (try_block (Responded r)) = Inl e"
    using r by (cases "body r") (auto split: sum.splits)
  then obtain e where "snd (try_block (Responded r)) = Inl e" ..
  then have "messages (settle i (Responded r) s)
     = inflight s ! i @ [\<lparr> role = Assistant, content = CONNECTION_ERROR_TEXT \<rparr>]"
    using settle_messages [OF i, of "Responded r"] by (simp del: try_block.simps)
  then show ?thesis using texts_distinct by simp
qed

theorem failed_request_connection_error_witness:
  "0 < length (inflight (run [Toggle, Change (str ''Hello''), Submit]))
   \<and> \<not> ok \<lparr> status = 500, body = Malformed (str ''Internal Server Error'') \<rparr>
   \<and> messages (settle 0
         (Responded \<lparr> status = 500, body = Malformed (str ''Internal Server Error'') \<rparr>)
         (run [Toggle, Change (str ''Hello''), Submit]))
      = [\<lparr> role = System, content = CHAT_SYSTEM_PROMPT \<rparr>,
         \<lparr> role = Assistant, content = WELCOME_TEXT \<rparr>,
         \<lparr> role = User, content = str ''Hello'' \<rparr>,
         \<lparr> role = Assistant, content = CONNECTION_ERROR_TEXT \<rparr>]
   \<and> ok \<lparr> status = 200, body = Malformed (str ''<html>'') \<rparr>
   \<and> messages (settle 0 (Responded \<lparr> status = 200, body = Malformed (str ''<html>'') \<rparr>)
         (run [Toggle, Change (str ''Hello''), Submit]))
      = [\<lparr> role = System, content = CHAT_SYSTEM_PROMPT \<rparr>,
         \<lparr> role = Assistant, content = WELCOME_TEXT \<rparr>,
         \<lparr> role = User, content = str ''Hello'' \<rparr>,
         \<lparr> role = Assistant, content = CONNECTION_ERROR_TEXT \<rparr>]"
proof -
  have a: "0 < length (inflight (run [Toggle, Change (str ''Hello''), Submit]))"
    by (simp add: awaiting_hello)
  have b: "\<not> ok \<lparr> status = 500, body = Malformed (str ''Internal Server Error'') \<rparr>"
    by (simp add: ok_def)
  have c: "ok \<lparr> status = 200, body = Malformed (str ''<html>'') \<rparr>"
    by (simp add: ok_def)
  have d: "\<forall>t data. body \<lparr> status = 200, body = Malformed (str ''<html>'') \<rparr> \<noteq> Parsed t data"
    by simp
  have e: "inflight (run [Toggle, Change (str ''Hello''), Submit]) ! 0
      = [\<lparr> role = System, content = CHAT_SYSTEM_PROMPT \<rparr>,
         \<lparr> role = Assistant, content = WELCOME_TEXT \<rparr>,
         \<lparr> role = User, content = str ''Hello'' \<rparr>]"
    by (simp add: awaiting_hello)
  show ?thesis
    using a b c
      failed_request_connection_error [OF a disjI1 [OF b]]
      failed_request_connection_error [OF a disjI2 [OF d]]
    unfolding e by simp
qed

end
